theory Spec2Isabelle
  imports Complex_Main
begin

section \<open>Calendar dates\<close>

text \<open>
  The program reads calendar fields off \<^verbatim>\<open>pandas.Timestamp\<close> and \<^verbatim>\<open>datetime\<close>
  values: \<^verbatim>\<open>.month\<close>, \<^verbatim>\<open>.day\<close>, \<^verbatim>\<open>.weekday()\<close>,
  \<^verbatim>\<open>.timetuple().tm_yday\<close>.  A timestamp is a count on the time axis and the
  calendar fields are computed from it; the model keeps that shape at the granularity of
  one day: a timestamp is the number of days since 1970-01-01 in the proleptic Gregorian
  calendar, and the time of day is left out.
\<close>

type_synonym timestamp = int

definition civil_of_days :: "timestamp \<Rightarrow> int \<times> int \<times> int" where
  "civil_of_days t =
     (let z = t + 719468;
          era = z div 146097;
          doe = z mod 146097;
          yoe = (doe - doe div 1460 + doe div 36524 - doe div 146096) div 365;
          doy = doe - (365 * yoe + yoe div 4 - yoe div 100);
          mp = (5 * doy + 2) div 153;
          d = doy - (153 * mp + 2) div 5 + 1;
          m = (if mp < 10 then mp + 3 else mp - 9);
          y = yoe + era * 400 + (if m \<le> 2 then 1 else 0)
      in (y, m, d))"

definition ts_year :: "timestamp \<Rightarrow> int" where
  "ts_year t = fst (civil_of_days t)"

definition ts_month :: "timestamp \<Rightarrow> int" where
  "ts_month t = fst (snd (civil_of_days t))"

definition ts_day :: "timestamp \<Rightarrow> int" where
  "ts_day t = snd (snd (civil_of_days t))"

text \<open>\<^verbatim>\<open>pd.Timestamp(year=y, month=m, day=d)\<close> for a valid calendar date.\<close>

definition Timestamp :: "int \<Rightarrow> int \<Rightarrow> int \<Rightarrow> timestamp" where
  "Timestamp y m d =
     (let y' = (if m \<le> 2 then y - 1 else y);
          era = y' div 400;
          yoe = y' mod 400;
          doy = (153 * (if m > 2 then m - 3 else m + 9) + 2) div 5 + d - 1;
          doe = yoe * 365 + yoe div 4 - yoe div 100 + doy
      in era * 146097 + doe - 719468)"

text \<open>\<^verbatim>\<open>fecha.weekday()\<close>: Monday is 0; 1970-01-01 was a Thursday.\<close>

definition weekday :: "timestamp \<Rightarrow> int" where
  "weekday t = (t + 3) mod 7"

text \<open>\<^verbatim>\<open>fecha.timetuple().tm_yday\<close>: the 1-based ordinal of the day in its year.\<close>

definition tm_yday :: "timestamp \<Rightarrow> int" where
  "tm_yday t = t - Timestamp (ts_year t) 1 1 + 1"

text \<open>\<^verbatim>\<open>fecha.strftime('%Y-%m-%d')\<close>, for the four-digit years a Timestamp can hold.\<close>

definition digito :: "int \<Rightarrow> char" where
  "digito n = char_of (48 + n mod 10)"

definition strftime :: "timestamp \<Rightarrow> string" where
  "strftime t =
     (let y = ts_year t; m = ts_month t; d = ts_day t
      in [digito (y div 1000), digito (y div 100), digito (y div 10), digito y,
          CHR ''-'', digito (m div 10), digito m,
          CHR ''-'', digito (d div 10), digito d])"

section \<open>Season of a month\<close>

text \<open>Line 87 of \<^verbatim>\<open>app.py\<close>: \<^verbatim>\<open>(fecha.month % 12 + 3) // 3\<close>.\<close>

definition season :: "int \<Rightarrow> int" where
  "season month = (month mod 12 + 3) div 3"

section \<open>Interpretation of a probability\<close>

text \<open>
  \<^verbatim>\<open>interpretar_probabilidad\<close>: the probability is a float or \<^verbatim>\<open>None\<close>; the chain
  of \<^verbatim>\<open>elif\<close> is kept in the order of the source.
\<close>

definition interpretar_probabilidad :: "real option \<Rightarrow> string" where
  "interpretar_probabilidad probabilidad =
     (case probabilidad of
        None \<Rightarrow> ''No se pudo determinar''
      | Some p \<Rightarrow>
          if p < 20 then ''Muy baja''
          else if p < 40 then ''Baja''
          else if p < 60 then ''Moderada''
          else if p < 80 then ''Alta''
          else ''Muy alta'')"

section \<open>Tables of historical records\<close>

text \<open>
  A cell of a numeric column is a float or null (\<^verbatim>\<open>NaN\<close>); floats are modelled as
  reals.  A row has its \<^verbatim>\<open>date\<close> (null is \<^verbatim>\<open>NaT\<close>) and one cell per
  column name.  A table lists the names of its columns other than \<^verbatim>\<open>date\<close>, and its
  rows in index order; only the cells of listed columns mean anything.
\<close>

datatype celda = NaN | Num real

record fila =
  date :: "timestamp option"
  vals :: "string \<Rightarrow> celda"

record dataframe =
  columns :: "string list"
  filas :: "fila list"

datatype excepcion =
    KeyError string
  | TypeError
  | ZeroDivisionError
  | FileNotFoundError
  | Exception string

definition columna :: "dataframe \<Rightarrow> string \<Rightarrow> celda list" where
  "columna df col = map (\<lambda>r. vals r col) (filas df)"

text \<open>\<^verbatim>\<open>serie.isnull().sum()\<close>\<close>

definition isnull_sum :: "celda list \<Rightarrow> nat" where
  "isnull_sum xs = length (filter (\<lambda>c. c = NaN) xs)"

text \<open>\<^verbatim>\<open>df.isnull().sum().sum()\<close>, the date column included.\<close>

definition nulos_total :: "dataframe \<Rightarrow> nat" where
  "nulos_total df =
     length (filter (\<lambda>r. date r = None) (filas df))
     + sum_list (map (\<lambda>col. isnull_sum (columna df col)) (columns df))"

text \<open>\<^verbatim>\<open>df[col] = serie\<close> for a series on the index of \<^verbatim>\<open>df\<close>.\<close>

definition asignar_columna :: "dataframe \<Rightarrow> string \<Rightarrow> celda list \<Rightarrow> dataframe" where
  "asignar_columna df col xs =
     df\<lparr>filas := map2 (\<lambda>r x. r\<lparr>vals := (vals r)(col := x)\<rparr>) (filas df) xs\<rparr>"

section \<open>Historical record cleaner\<close>

text \<open>
  \<^verbatim>\<open>serie.interpolate(method='linear')\<close> with the defaults of pandas: the index is
  ignored (values are equally spaced), nulls before the first value stay, nulls between
  two values lie on the line through them, nulls after the last value take it.
  \<open>siguiente_valido xs\<close> is the next value of \<open>xs\<close> and the number of nulls before it.
\<close>

fun siguiente_valido :: "celda list \<Rightarrow> (nat \<times> real) option" where
  "siguiente_valido [] = None"
| "siguiente_valido (Num v # xs) = Some (0, v)"
| "siguiente_valido (NaN # xs) =
     (case siguiente_valido xs of None \<Rightarrow> None | Some (n, v) \<Rightarrow> Some (Suc n, v))"

fun interpolate_desde :: "real \<Rightarrow> nat \<Rightarrow> celda list \<Rightarrow> celda list" where
  "interpolate_desde a k [] = []"
| "interpolate_desde a k (Num v # xs) = Num v # interpolate_desde v 0 xs"
| "interpolate_desde a k (NaN # xs) =
     (case siguiente_valido xs of
        None \<Rightarrow> Num a
      | Some (n, b) \<Rightarrow> Num (a + (b - a) * real (k + 1) / real (k + n + 2)))
     # interpolate_desde a (Suc k) xs"

fun interpolate :: "celda list \<Rightarrow> celda list" where
  "interpolate [] = []"
| "interpolate (NaN # xs) = NaN # interpolate xs"
| "interpolate (Num v # xs) = Num v # interpolate_desde v 0 xs"

text \<open>\<^verbatim>\<open>fillna(method='bfill')\<close>: a null takes the next value, if there is one.\<close>

fun bfill :: "celda list \<Rightarrow> celda list" where
  "bfill [] = []"
| "bfill (Num v # xs) = Num v # bfill xs"
| "bfill (NaN # xs) = (case bfill xs of [] \<Rightarrow> [NaN] | y # ys \<Rightarrow> y # y # ys)"

text \<open>\<^verbatim>\<open>fillna(method='ffill')\<close>: a null takes the previous value, if there is one.\<close>

fun ffill_desde :: "celda \<Rightarrow> celda list \<Rightarrow> celda list" where
  "ffill_desde prev [] = []"
| "ffill_desde prev (Num v # xs) = Num v # ffill_desde (Num v) xs"
| "ffill_desde prev (NaN # xs) = prev # ffill_desde prev xs"

definition ffill :: "celda list \<Rightarrow> celda list" where
  "ffill xs = ffill_desde NaN xs"

text \<open>The body of the loop of lines 33 to 35, for one column name.\<close>

definition limpiar_columna :: "dataframe \<Rightarrow> string \<Rightarrow> dataframe" where
  "limpiar_columna df col =
     (if col \<in> set (columns df) \<and> isnull_sum (columna df col) > 0
      then asignar_columna df col (ffill (bfill (interpolate (columna df col))))
      else df)"

text \<open>The loop of lines 33 to 35.\<close>

definition reparar :: "dataframe \<Rightarrow> dataframe" where
  "reparar df =
     foldl limpiar_columna df
       [''tavg'', ''tmin'', ''tmax'', ''prcp'', ''wspd'', ''pres'', ''wdir'']"

text \<open>\<^verbatim>\<open>df.dropna(subset=cols)\<close>\<close>

definition dropna :: "dataframe \<Rightarrow> string list \<Rightarrow> dataframe" where
  "dropna df cols = df\<lparr>filas := filter (\<lambda>r. list_all (\<lambda>col. vals r col \<noteq> NaN) cols) (filas df)\<rparr>"

text \<open>
  \<^verbatim>\<open>cargar_datos_historicos\<close>.  The argument is the outcome of lines 24 and 25
  (\<^verbatim>\<open>pd.read_csv\<close> and \<^verbatim>\<open>pd.to_datetime\<close>, which are the library's): the table
  read, or the exception raised.  Both handlers return \<^verbatim>\<open>None\<close>.  Selecting
  \<^verbatim>\<open>df[['tavg', 'prcp', 'pres']]\<close> raises \<^verbatim>\<open>KeyError\<close> when one of the three is
  not a column, and the second handler catches it.
\<close>

definition cargar_datos_historicos :: "excepcion + dataframe \<Rightarrow> dataframe option" where
  "cargar_datos_historicos leido =
     (case leido of
        Inl e \<Rightarrow> None
      | Inr df0 \<Rightarrow>
          if nulos_total df0 > 0 then
            (let df = reparar df0
             in if \<not> set [''tavg'', ''prcp'', ''pres''] \<subseteq> set (columns df) then None
                else
                  (let nulos_restantes =
                         sum_list (map (\<lambda>col. isnull_sum (columna df col))
                                       [''tavg'', ''prcp'', ''pres''])
                   in if nulos_restantes > 0
                      then Some (dropna df [''tavg'', ''prcp'', ''pres''])
                      else Some df))
          else Some df0)"

section \<open>Analogue feature synthesis\<close>

text \<open>
  Lines 60 to 63: the rows of the month of \<open>fecha\<close> whose day of month is one of
  \<^verbatim>\<open>[fecha.day-1, fecha.day, fecha.day+1]\<close>.  A comparison with \<^verbatim>\<open>NaT\<close> is false.
\<close>

definition datos_primarios :: "dataframe \<Rightarrow> timestamp \<Rightarrow> fila list" where
  "datos_primarios df_historico fecha =
     filter (\<lambda>r. case date r of
                   None \<Rightarrow> False
                 | Some t \<Rightarrow> ts_month t = ts_month fecha
                     \<and> ts_day t \<in> set [ts_day fecha - 1, ts_day fecha, ts_day fecha + 1])
            (filas df_historico)"

text \<open>Line 67: the rows of the month of \<open>fecha\<close>.\<close>

definition datos_del_mes :: "dataframe \<Rightarrow> timestamp \<Rightarrow> fila list" where
  "datos_del_mes df_historico fecha =
     filter (\<lambda>r. case date r of None \<Rightarrow> False | Some t \<Rightarrow> ts_month t = ts_month fecha)
            (filas df_historico)"

text \<open>Lines 60 to 67: \<^verbatim>\<open>datos_similares\<close> as it stands before line 69.\<close>

definition datos_similares :: "dataframe \<Rightarrow> timestamp \<Rightarrow> fila list" where
  "datos_similares df_historico fecha =
     (let ds = datos_primarios df_historico fecha
      in if length ds = 0 then datos_del_mes df_historico fecha else ds)"

text \<open>\<^verbatim>\<open>serie.mean()\<close>: the mean of the values that are not null, null if there is none.\<close>

fun valores :: "celda list \<Rightarrow> real list" where
  "valores [] = []"
| "valores (NaN # xs) = valores xs"
| "valores (Num v # xs) = v # valores xs"

definition mean :: "celda list \<Rightarrow> celda" where
  "mean xs = (let vs = valores xs
              in if vs = [] then NaN else Num (sum_list vs / real (length vs)))"

text \<open>The body of the loop of lines 75 to 77, for one column name.\<close>

definition fillna_mean :: "fila list \<Rightarrow> string \<Rightarrow> fila list" where
  "fillna_mean rs col =
     (let xs = map (\<lambda>r. vals r col) rs
      in if isnull_sum xs > 0 \<and> col \<noteq> ''date''
         then map (\<lambda>r. r\<lparr>vals := (vals r)(col := (case vals r col of NaN \<Rightarrow> mean xs
                                                        | Num v \<Rightarrow> Num v))\<rparr>) rs
         else rs)"

text \<open>
  A feature vector: the one-row table \<^verbatim>\<open>df_prediccion\<close>, as a map from the names of
  its columns to the cell of its row.
\<close>

type_synonym vector = "string \<rightharpoonup> celda"

text \<open>
  Line 80, \<^verbatim>\<open>datos_similares.mean().to_dict()\<close>: the mean of every numeric column.
  (With the pandas that still has \<^verbatim>\<open>fillna(method=...)\<close>, which line 35 needs, the
  mean leaves the date column out.)
\<close>

definition promedios :: "string list \<Rightarrow> fila list \<Rightarrow> vector" where
  "promedios cols rs =
     (\<lambda>col. if col \<in> set cols then Some (mean (map (\<lambda>r. vals r col) rs)) else None)"

definition radians :: "real \<Rightarrow> real" where
  "radians x = x * pi / 180"

definition map_celda :: "(real \<Rightarrow> real) \<Rightarrow> celda \<Rightarrow> celda" where
  "map_celda f c = (case c of NaN \<Rightarrow> NaN | Num v \<Rightarrow> Num (f v))"

text \<open>
  \<^verbatim>\<open>preparar_datos_fecha\<close>, for \<open>fecha\<close> a timestamp (no caller passes a string).
  \<open>Inr None\<close> is the return of line 71; \<open>Inl\<close> is an exception that leaves the
  function: reading \<^verbatim>\<open>df_prediccion['tavg']\<close> or \<^verbatim>\<open>df_prediccion['prcp']\<close> when
  the table has no such column raises \<^verbatim>\<open>KeyError\<close>, and nothing here catches it.
\<close>

definition preparar_datos_fecha :: "dataframe \<Rightarrow> timestamp \<Rightarrow> excepcion + vector option" where
  "preparar_datos_fecha df_historico fecha =
     (let ds = datos_similares df_historico fecha
      in if length ds = 0 then Inr None
         else
           (let ds1 = (if length (filter (\<lambda>r. date r = None) ds)
                            + sum_list (map (\<lambda>col. isnull_sum (map (\<lambda>r. vals r col) ds))
                                            (columns df_historico)) > 0
                       then foldl fillna_mean ds (columns df_historico)
                       else ds);
                datos_fecha = promedios (columns df_historico) ds1;
                v1 = datos_fecha(''month'' \<mapsto> Num (of_int (ts_month fecha)));
                v2 = v1(''day_of_year'' \<mapsto> Num (of_int (tm_yday fecha)));
                v3 = v2(''day_of_week'' \<mapsto> Num (of_int (weekday fecha)));
                v4 = v3(''season'' \<mapsto> Num (of_int (season (ts_month fecha))))
            in case v4 ''tavg'' of
                 None \<Rightarrow> Inl (KeyError ''tavg'')
               | Some tavg \<Rightarrow>
                   (let v5 = v4(''tavg_3d_mean'' \<mapsto> tavg)
                    in case v5 ''prcp'' of
                         None \<Rightarrow> Inl (KeyError ''prcp'')
                       | Some prcp \<Rightarrow>
                           (let v6 = v5(''prcp_3d_sum'' \<mapsto> prcp);
                                v7 = v6(''pres_diff'' \<mapsto> Num 0)
                            in case v7 ''wdir'' of
                                 Some wdir \<Rightarrow>
                                   Inr (Some (v7(''wdir_sin'' \<mapsto> map_celda (\<lambda>x. sin (radians x)) wdir,
                                                 ''wdir_cos'' \<mapsto> map_celda (\<lambda>x. cos (radians x)) wdir)))
                               | None \<Rightarrow>
                                   Inr (Some (v7(''wdir_sin'' \<mapsto> Num 0,
                                                 ''wdir_cos'' \<mapsto> Num 0)))))))"

section \<open>Prediction invoker\<close>

text \<open>
  The scaler and the classifier are objects loaded from files: the model takes their
  methods as functions that return a value or raise.  An \<open>excepcion\<close> is an instance of
  Python's class \<^verbatim>\<open>Exception\<close>, which is what \<^verbatim>\<open>except Exception\<close> catches.
  \<open>predict_proba m X\<close> is \<^verbatim>\<open>m.predict_proba(X)[:, 1][0]\<close> and \<open>predict m X\<close> is
  \<^verbatim>\<open>m.predict(X)[0]\<close>.
\<close>

record modelo =
  predict_proba :: "celda list \<Rightarrow> excepcion + real"
  predict :: "celda list \<Rightarrow> excepcion + int"

record escalador =
  transform :: "celda list \<Rightarrow> excepcion + celda list"

text \<open>What the invoker does besides returning: what it prints and which methods it calls.\<close>

datatype evento =
    Imprime_faltantes "string list"
  | Imprime_error excepcion
  | Llama_transform "celda list"
  | Llama_predict_proba "celda list"
  | Llama_predict "celda list"

text \<open>\<^verbatim>\<open>df_datos[caracteristicas]\<close>: the cells in the order of the list of names.\<close>

fun seleccionar :: "vector \<Rightarrow> string list \<Rightarrow> excepcion + celda list" where
  "seleccionar df_datos [] = Inr []"
| "seleccionar df_datos (feat # feats) =
     (case df_datos feat of
        None \<Rightarrow> Inl (KeyError feat)
      | Some x \<Rightarrow> (case seleccionar df_datos feats of Inl e \<Rightarrow> Inl e | Inr xs \<Rightarrow> Inr (x # xs)))"

text \<open>
  \<^verbatim>\<open>predecir_probabilidad_lluvia\<close>: the pair returned and the events in the order they
  happen.  Each \<open>Inl e\<close> below is an exception raised in the \<^verbatim>\<open>try\<close> block, which the
  handler of line 127 reports and turns into \<^verbatim>\<open>(None, None)\<close>.
\<close>

definition predecir_probabilidad_lluvia ::
  "modelo \<Rightarrow> escalador \<Rightarrow> string list \<Rightarrow> vector \<Rightarrow> (int option \<times> real option) \<times> evento list" where
  "predecir_probabilidad_lluvia modelo escalador caracteristicas df_datos =
     (let missing_features = filter (\<lambda>feat. df_datos feat = None) caracteristicas
      in if missing_features \<noteq> [] then ((None, None), [Imprime_faltantes missing_features])
         else
           (case seleccionar df_datos caracteristicas of
              Inl e \<Rightarrow> ((None, None), [Imprime_error e])
            | Inr X \<Rightarrow>
                (case transform escalador X of
                   Inl e \<Rightarrow> ((None, None), [Llama_transform X, Imprime_error e])
                 | Inr X_scaled \<Rightarrow>
                     (case predict_proba modelo X_scaled of
                        Inl e \<Rightarrow>
                          ((None, None),
                           [Llama_transform X, Llama_predict_proba X_scaled, Imprime_error e])
                      | Inr probabilidad \<Rightarrow>
                          (case predict modelo X_scaled of
                             Inl e \<Rightarrow>
                               ((None, None),
                                [Llama_transform X, Llama_predict_proba X_scaled,
                                 Llama_predict X_scaled, Imprime_error e])
                           | Inr prediccion \<Rightarrow>
                               ((Some prediccion, Some (probabilidad * 100)),
                                [Llama_transform X, Llama_predict_proba X_scaled,
                                 Llama_predict X_scaled]))))))"

section \<open>Range aggregation\<close>

record resultado =
  fecha :: string
  prediccion :: string
  probabilidad :: "real option"
  interpretacion :: string

text \<open>\<^verbatim>\<open>pd.date_range(start=fecha_inicio, end=fecha_fin)\<close>: one timestamp per day.\<close>

definition date_range :: "timestamp \<Rightarrow> timestamp \<Rightarrow> timestamp list" where
  "date_range fecha_inicio fecha_fin = [fecha_inicio..fecha_fin]"

text \<open>
  Lines 154 to 160: the entry appended for a date whose vector is \<open>df_fecha\<close>.
  \<^verbatim>\<open>None == 1\<close> is false.
\<close>

definition resultado_fecha ::
  "modelo \<Rightarrow> escalador \<Rightarrow> string list \<Rightarrow> timestamp \<Rightarrow> vector \<Rightarrow> resultado" where
  "resultado_fecha modelo escalador caracteristicas f df_fecha =
     (case fst (predecir_probabilidad_lluvia modelo escalador caracteristicas df_fecha) of
        (pred, prob) \<Rightarrow>
          \<lparr>fecha = strftime f,
           prediccion = (if pred = Some 1 then ''Lluvia'' else ''No lluvia''),
           probabilidad = prob,
           interpretacion = interpretar_probabilidad prob\<rparr>)"

text \<open>
  The loop of lines 151 to 160 over the dates that are left, with \<open>resultados\<close> as it
  stands.  An exception of \<^verbatim>\<open>preparar_datos_fecha\<close> leaves the loop and the function.
\<close>

fun pronostico_bucle ::
  "dataframe \<Rightarrow> modelo \<Rightarrow> escalador \<Rightarrow> string list \<Rightarrow> timestamp list \<Rightarrow> resultado list
     \<Rightarrow> excepcion + resultado list" where
  "pronostico_bucle df_historico modelo escalador caracteristicas [] resultados = Inr resultados"
| "pronostico_bucle df_historico modelo escalador caracteristicas (f # fechas) resultados =
     (case preparar_datos_fecha df_historico f of
        Inl e \<Rightarrow> Inl e
      | Inr None \<Rightarrow>
          pronostico_bucle df_historico modelo escalador caracteristicas fechas resultados
      | Inr (Some df_fecha) \<Rightarrow>
          pronostico_bucle df_historico modelo escalador caracteristicas fechas
            (resultados @ [resultado_fecha modelo escalador caracteristicas f df_fecha]))"

definition generar_pronostico_rango ::
  "dataframe \<Rightarrow> modelo \<Rightarrow> escalador \<Rightarrow> string list \<Rightarrow> timestamp \<Rightarrow> timestamp
     \<Rightarrow> excepcion + resultado list" where
  "generar_pronostico_rango df_historico modelo escalador caracteristicas fecha_inicio fecha_fin =
     pronostico_bucle df_historico modelo escalador caracteristicas
       (date_range fecha_inicio fecha_fin) []"

section \<open>Monthly aggregation\<close>

text \<open>
  \<^verbatim>\<open>analisis_mensual\<close>, for a month from 1 to 12 as its callers check.
  \<^verbatim>\<open>Timestamp(year, month, 1) + MonthEnd(1)\<close> is the last day of that month: the day
  before the first of the next one.
\<close>

definition analisis_mensual ::
  "dataframe \<Rightarrow> modelo \<Rightarrow> escalador \<Rightarrow> string list \<Rightarrow> int \<Rightarrow> int \<Rightarrow> excepcion + resultado list" where
  "analisis_mensual df_historico modelo escalador caracteristicas anio mes =
     (let ultimo_dia = (if mes = 12 then Timestamp (anio + 1) 1 1 else Timestamp anio (mes + 1) 1) - 1;
          dias_en_mes = ts_day ultimo_dia;
          fecha_inicio = Timestamp anio mes 1;
          fecha_fin = Timestamp anio mes dias_en_mes
      in generar_pronostico_rango df_historico modelo escalador caracteristicas fecha_inicio fecha_fin)"

text \<open>
  The loop that prints the table (lines 241 and 242, 339 and 340): the format
  \<^verbatim>\<open>{resultado['probabilidad']:.2f}\<close> raises \<^verbatim>\<open>TypeError\<close> on \<^verbatim>\<open>None\<close>.
  \<open>None\<close> here is the loop running to its end.
\<close>

fun imprimir_tabla :: "resultado list \<Rightarrow> excepcion option" where
  "imprimir_tabla [] = None"
| "imprimir_tabla (r # rs) =
     (case probabilidad r of None \<Rightarrow> Some TypeError | Some p \<Rightarrow> imprimir_tabla rs)"

text \<open>\<^verbatim>\<open>sum\<close>, \<^verbatim>\<open>max\<close> and \<^verbatim>\<open>min\<close> of a list of floats that may hold \<^verbatim>\<open>None\<close>.\<close>

fun py_sum :: "real option list \<Rightarrow> excepcion + real" where
  "py_sum [] = Inr 0"
| "py_sum (None # xs) = Inl TypeError"
| "py_sum (Some x # xs) = (case py_sum xs of Inl e \<Rightarrow> Inl e | Inr s \<Rightarrow> Inr (x + s))"

fun py_extremo :: "(real \<Rightarrow> real \<Rightarrow> real) \<Rightarrow> real option list \<Rightarrow> excepcion + real" where
  "py_extremo f [] = Inl (Exception ''ValueError'')"
| "py_extremo f (None # xs) = Inl TypeError"
| "py_extremo f [Some x] = Inr x"
| "py_extremo f (Some x # xs) = (case py_extremo f xs of Inl e \<Rightarrow> Inl e | Inr m \<Rightarrow> Inr (f x m))"

record resumen =
  dias_lluvia :: nat
  dias_total :: nat
  porcentaje_lluvia :: real
  probabilidad_media :: real
  probabilidad_maxima :: real
  probabilidad_minima :: real

text \<open>
  Lines 241 to 252 (and 339 to 351): the table, then the numbers of the summary as they
  are computed, each before the format that prints it.
\<close>

definition resumen_mensual :: "resultado list \<Rightarrow> excepcion + resumen" where
  "resumen_mensual resultados =
     (case imprimir_tabla resultados of
        Some e \<Rightarrow> Inl e
      | None \<Rightarrow>
          (let probabilidades = map probabilidad resultados;
               dias = length (filter (\<lambda>r. prediccion r = ''Lluvia'') resultados)
           in if length resultados = 0 then Inl ZeroDivisionError
              else
                (case py_sum probabilidades of
                   Inl e \<Rightarrow> Inl e
                 | Inr s \<Rightarrow>
                     (case py_extremo max probabilidades of
                        Inl e \<Rightarrow> Inl e
                      | Inr mx \<Rightarrow>
                          (case py_extremo min probabilidades of
                             Inl e \<Rightarrow> Inl e
                           | Inr mn \<Rightarrow>
                               Inr \<lparr>dias_lluvia = dias,
                                    dias_total = length resultados,
                                    porcentaje_lluvia = real dias / real (length resultados) * 100,
                                    probabilidad_media = s / real (length probabilidades),
                                    probabilidad_maxima = mx,
                                    probabilidad_minima = mn\<rparr>)))))"

text \<open>
  The \<^verbatim>\<open>--mes\<close> branch of \<^verbatim>\<open>interfaz_linea_comandos\<close> (lines 227 to 252) and option 3
  of \<^verbatim>\<open>interfaz_interactiva\<close> (lines 327 to 351), once the model and the table are
  loaded.  \<open>Inr None\<close> is the rejection of a month out of range; neither interface
  catches \<^verbatim>\<open>TypeError\<close>, \<^verbatim>\<open>KeyError\<close> or \<^verbatim>\<open>ZeroDivisionError\<close>.
\<close>

definition interfaz_mes ::
  "dataframe \<Rightarrow> modelo \<Rightarrow> escalador \<Rightarrow> string list \<Rightarrow> int \<Rightarrow> int \<Rightarrow> excepcion + resumen option" where
  "interfaz_mes df_historico modelo escalador caracteristicas anio mes =
     (if mes < 1 \<or> mes > 12 then Inr None
      else
        (case analisis_mensual df_historico modelo escalador caracteristicas anio mes of
           Inl e \<Rightarrow> Inl e
         | Inr resultados \<Rightarrow>
             (case resumen_mensual resultados of Inl e \<Rightarrow> Inl e | Inr r \<Rightarrow> Inr (Some r))))"

section \<open>Predicates on rows\<close>

text \<open>
  \<open>conserva_fila r r'\<close>: the row \<open>r'\<close> is the row \<open>r\<close> with some of its nulls filled;
  the date and every cell that was not null are as they were.
\<close>

definition conserva_fila :: "fila \<Rightarrow> fila \<Rightarrow> bool" where
  "conserva_fila r r' \<longleftrightarrow>
     date r' = date r \<and> (\<forall>col. vals r col \<noteq> NaN \<longrightarrow> vals r' col = vals r col)"

text \<open>A row with none of the three cells that line 42 looks at null.\<close>

definition fila_completa :: "fila \<Rightarrow> bool" where
  "fila_completa r \<longleftrightarrow>
     vals r ''tavg'' \<noteq> NaN \<and> vals r ''prcp'' \<noteq> NaN \<and> vals r ''pres'' \<noteq> NaN"

section \<open>Example data\<close>

text \<open>
  A small table for the concrete checks: two January rows of different years
  (2022-01-01, 2023-01-02), one of 2023-12-31 and one of 2023-02-10, with the columns
  \<^verbatim>\<open>tavg\<close> and \<^verbatim>\<open>prcp\<close>; a classifier that answers rain with probability 0.75 and
  a scaler that changes nothing.
\<close>

definition fila_ejemplo :: "timestamp \<Rightarrow> real \<Rightarrow> real \<Rightarrow> fila" where
  "fila_ejemplo t tavg prcp =
     \<lparr>date = Some t, vals = (\<lambda>col. NaN)(''tavg'' := Num tavg, ''prcp'' := Num prcp)\<rparr>"

definition df_ejemplo :: dataframe where
  "df_ejemplo =
     \<lparr>columns = [''tavg'', ''prcp''],
      filas = [fila_ejemplo 18993 10 0, fila_ejemplo 19359 14 3,
               fila_ejemplo 19722 8 1, fila_ejemplo 19398 12 5]\<rparr>"

definition modelo_ejemplo :: modelo where
  "modelo_ejemplo = \<lparr>predict_proba = (\<lambda>X. Inr (3 / 4)), predict = (\<lambda>X. Inr 1)\<rparr>"

definition escalador_ejemplo :: escalador where
  "escalador_ejemplo = \<lparr>transform = (\<lambda>X. Inr X)\<rparr>"

definition vector_ejemplo :: vector where
  "vector_ejemplo = [''tavg'' \<mapsto> Num 12, ''prcp'' \<mapsto> Num 2]"


text \<open>
  A table with nulls: \<^verbatim>\<open>prcp\<close> of the first row, \<^verbatim>\<open>tavg\<close> and \<^verbatim>\<open>pres\<close> of the
  second, and the date of the third.
\<close>

definition df_nulos :: dataframe where
  "df_nulos =
     \<lparr>columns = [''tavg'', ''prcp'', ''pres''],
      filas =
        [\<lparr>date = Some 18993,
          vals = (\<lambda>col. NaN)(''tavg'' := Num 10, ''pres'' := Num 1000)\<rparr>,
         \<lparr>date = Some 18994, vals = (\<lambda>col. NaN)(''prcp'' := Num 1)\<rparr>,
         \<lparr>date = None,
          vals = (\<lambda>col. NaN)(''tavg'' := Num 14, ''prcp'' := Num 3, ''pres'' := Num 1010)\<rparr>]\<rparr>"

section \<open>Calendar fields of the example dates\<close>

lemma civil_of_days_ejemplos: "civil_of_days 18993 = (2022, 1, 1)" "civil_of_days 19359 = (2023, 1, 2)"
  "civil_of_days 19722 = (2023, 12, 31)" "civil_of_days 19398 = (2023, 2, 10)"
  "civil_of_days 19723 = (2024, 1, 1)" "civil_of_days 19773 = (2024, 2, 20)"
  by code_simp+

section \<open>Properties of the interpretation and of the season\<close>

text \<open>
  C3.  The interpretation is a function of the probability alone: an absent probability
  gives the undetermined band (\<open>No se pudo determinar\<close>); a probability below 20 gives
  very low (\<open>Muy baja\<close>), from 20 and below 40 low (\<open>Baja\<close>), from 40 and below 60
  moderate (\<open>Moderada\<close>), from 60 and below 80 high (\<open>Alta\<close>), and from 80 on very high
  (\<open>Muy alta\<close>).  Each of the boundaries 20, 40, 60 and 80 falls into the upper band.
\<close>

theorem interpretar_probabilidad_bandas:
  "interpretar_probabilidad None = ''No se pudo determinar''
   \<and> (p < 20 \<longrightarrow> interpretar_probabilidad (Some p) = ''Muy baja'')
   \<and> (20 \<le> p \<and> p < 40 \<longrightarrow> interpretar_probabilidad (Some p) = ''Baja'')
   \<and> (40 \<le> p \<and> p < 60 \<longrightarrow> interpretar_probabilidad (Some p) = ''Moderada'')
   \<and> (60 \<le> p \<and> p < 80 \<longrightarrow> interpretar_probabilidad (Some p) = ''Alta'')
   \<and> (80 \<le> p \<longrightarrow> interpretar_probabilidad (Some p) = ''Muy alta'')
   \<and> interpretar_probabilidad (Some 20) = ''Baja''
   \<and> interpretar_probabilidad (Some 40) = ''Moderada''
   \<and> interpretar_probabilidad (Some 60) = ''Alta''
   \<and> interpretar_probabilidad (Some 80) = ''Muy alta''"
  by (simp add: interpretar_probabilidad_def)

theorem interpretar_probabilidad_bandas_witness:
  "interpretar_probabilidad (Some 0) = ''Muy baja''
   \<and> interpretar_probabilidad (Some 30) = ''Baja''
   \<and> interpretar_probabilidad (Some 59) = ''Moderada''
   \<and> interpretar_probabilidad (Some 70) = ''Alta''
   \<and> interpretar_probabilidad (Some 100) = ''Muy alta''"
  using interpretar_probabilidad_bandas [of 0] interpretar_probabilidad_bandas [of 30]
    interpretar_probabilidad_bandas [of 59] interpretar_probabilidad_bandas [of 70]
    interpretar_probabilidad_bandas [of 100]
  by simp

text \<open>
  C4 as stated, that the season of month 1, of month 2 and of month 3 are the same, fails:
  the formula gives 1 for January and February and 2 for March.
\<close>

theorem season_meses_1_2_3_counterexample:
  "\<not> (season 1 = season 2 \<and> season 2 = season 3)"
  by (simp add: season_def)

text \<open>
  C4, amended.  The season computed as \<^verbatim>\<open>((month % 12) + 3) // 3\<close> takes the same
  value for month 12, month 1 and month 2, which is 1; month 3 takes the value 2, as
  months 4 and 5 do; months 6 to 8 take 3 and months 9 to 11 take 4.
\<close>

theorem season_por_mes:
  "season 12 = 1 \<and> season 1 = 1 \<and> season 2 = 1
   \<and> season 3 = 2 \<and> season 4 = 2 \<and> season 5 = 2
   \<and> season 6 = 3 \<and> season 7 = 3 \<and> season 8 = 3
   \<and> season 9 = 4 \<and> season 10 = 4 \<and> season 11 = 4"
  by (simp add: season_def)

section \<open>Properties of the analogue selection\<close>



section \<open>Properties of the synthesized vector\<close>

text \<open>With the columns \<^verbatim>\<open>tavg\<close> and \<^verbatim>\<open>prcp\<close> in the table, the synthesis raises nothing.\<close>

lemma preparar_columnas:
  assumes "''tavg'' \<in> set (columns df)" and "''prcp'' \<in> set (columns df)"
  shows "\<exists>r. preparar_datos_fecha df f = Inr r"
  using assms
  by (simp add: preparar_datos_fecha_def promedios_def Let_def split: option.splits)

text \<open>
  The calendar fields of a vector come from the target date: its month, the season of
  its month, its day of the year and its day of the week.
\<close>

lemma preparar_campos_calendario:
  assumes "preparar_datos_fecha df f = Inr (Some v)"
  shows "v ''month'' = Some (Num (of_int (ts_month f)))
         \<and> v ''season'' = Some (Num (of_int (season (ts_month f))))
         \<and> v ''day_of_year'' = Some (Num (of_int (tm_yday f)))
         \<and> v ''day_of_week'' = Some (Num (of_int (weekday f)))"
  using assms
  by (auto simp add: preparar_datos_fecha_def Let_def split: option.splits if_splits)

text \<open>
  C2.  In every vector that the synthesis produces, \<^verbatim>\<open>pres_diff\<close> is 0,
  \<^verbatim>\<open>tavg_3d_mean\<close> is the synthesized \<^verbatim>\<open>tavg\<close> and \<^verbatim>\<open>prcp_3d_sum\<close> is the
  synthesized \<^verbatim>\<open>prcp\<close>.
\<close>

theorem preparar_campos_degenerados:
  assumes "preparar_datos_fecha df f = Inr (Some v)"
  shows "v ''pres_diff'' = Some (Num 0)
         \<and> v ''tavg_3d_mean'' = v ''tavg''
         \<and> v ''prcp_3d_sum'' = v ''prcp''
         \<and> v ''tavg'' \<noteq> None \<and> v ''prcp'' \<noteq> None"
  using assms
  by (auto simp add: preparar_datos_fecha_def Let_def split: option.splits if_splits)

theorem preparar_campos_degenerados_witness:
  "(case preparar_datos_fecha df_ejemplo 19723 of
      Inr (Some v) \<Rightarrow>
        v ''pres_diff'' = Some (Num 0) \<and> v ''tavg_3d_mean'' = Some (Num 12)
        \<and> v ''tavg'' = Some (Num 12) \<and> v ''prcp_3d_sum'' = v ''prcp''
    | _ \<Rightarrow> False)"
proof -
  have s: "datos_similares df_ejemplo 19723 = [fila_ejemplo 18993 10 0, fila_ejemplo 19359 14 3]"
    by (simp add: datos_similares_def datos_primarios_def df_ejemplo_def fila_ejemplo_def
        ts_month_def ts_day_def civil_of_days_ejemplos)
  obtain r where r: "preparar_datos_fecha df_ejemplo 19723 = Inr r"
    using preparar_columnas [of df_ejemplo 19723] by (auto simp add: df_ejemplo_def)
  have "r \<noteq> None"
    using r s by (auto simp add: preparar_datos_fecha_def Let_def split: if_splits option.splits)
  then obtain v where v: "preparar_datos_fecha df_ejemplo 19723 = Inr (Some v)"
    using r by auto
  have t: "v ''tavg'' = Some (Num 12)"
    using v s
    by (auto simp add: preparar_datos_fecha_def Let_def promedios_def mean_def isnull_sum_def
        df_ejemplo_def fila_ejemplo_def split: if_splits option.splits)
  show ?thesis
    using preparar_campos_degenerados [OF v] v t by simp
qed

section \<open>Properties of the prediction invoker\<close>

lemma seleccionar_completo:
  "\<forall>feat \<in> set caracteristicas. df_datos feat \<noteq> None \<Longrightarrow>
   seleccionar df_datos caracteristicas = Inr (map (\<lambda>feat. the (df_datos feat)) caracteristicas)"
  by (induction caracteristicas) auto

text \<open>
  C6.  When a required feature name is absent from the vector, the invoker returns
  \<^verbatim>\<open>(None, None)\<close>, and all it does is print the list of the missing names, which is
  not empty: neither the transform of the scaler nor a method of the classifier is called.
\<close>

theorem predecir_faltantes:
  assumes "\<exists>feat \<in> set caracteristicas. df_datos feat = None"
  shows "predecir_probabilidad_lluvia modelo escalador caracteristicas df_datos =
           ((None, None),
            [Imprime_faltantes (filter (\<lambda>feat. df_datos feat = None) caracteristicas)])
         \<and> filter (\<lambda>feat. df_datos feat = None) caracteristicas \<noteq> []
         \<and> (\<forall>X. Llama_transform X \<notin> set (snd (predecir_probabilidad_lluvia modelo escalador caracteristicas df_datos))
               \<and> Llama_predict_proba X \<notin> set (snd (predecir_probabilidad_lluvia modelo escalador caracteristicas df_datos))
               \<and> Llama_predict X \<notin> set (snd (predecir_probabilidad_lluvia modelo escalador caracteristicas df_datos)))"
proof -
  have "filter (\<lambda>feat. df_datos feat = None) caracteristicas \<noteq> []"
    using assms by (simp add: filter_empty_conv)
  then show ?thesis
    by (simp add: predecir_probabilidad_lluvia_def Let_def)
qed

theorem predecir_faltantes_witness:
  "predecir_probabilidad_lluvia modelo_ejemplo escalador_ejemplo
     [''tavg'', ''humidity'', ''prcp'', ''pres_diff''] vector_ejemplo =
   ((None, None), [Imprime_faltantes [''humidity'', ''pres_diff'']])"
  using predecir_faltantes [of "[''tavg'', ''humidity'', ''prcp'', ''pres_diff'']" vector_ejemplo
      modelo_ejemplo escalador_ejemplo]
  by (simp add: vector_ejemplo_def)

text \<open>
  C7.  When the vector has every required feature, the cells are selected in the order of
  the list.  If the transform and both methods of the classifier return, the invoker
  returns the label and 100 times the probability of the positive class; if the transform
  raises, or the transform returns and one of the two methods raises, it returns
  \<^verbatim>\<open>(None, None)\<close>.  These are all the cases, and in each the invoker returns a pair:
  no exception leaves it.
\<close>

theorem predecir_completo:
  assumes "\<forall>feat \<in> set caracteristicas. df_datos feat \<noteq> None"
  shows "let X = map (\<lambda>feat. the (df_datos feat)) caracteristicas;
             r = fst (predecir_probabilidad_lluvia modelo escalador caracteristicas df_datos)
         in seleccionar df_datos caracteristicas = Inr X
            \<and> (transform escalador X = Inr X_scaled \<and> predict_proba modelo X_scaled = Inr p
                 \<and> predict modelo X_scaled = Inr l \<longrightarrow> r = (Some l, Some (p * 100)))
            \<and> (transform escalador X = Inl e \<longrightarrow> r = (None, None))
            \<and> (transform escalador X = Inr X_scaled
                 \<and> (predict_proba modelo X_scaled = Inl e \<or> predict modelo X_scaled = Inl e)
                 \<longrightarrow> r = (None, None))"
proof -
  have m: "filter (\<lambda>feat. df_datos feat = None) caracteristicas = []"
    using assms by (simp add: filter_empty_conv)
  show ?thesis
    using assms
    by (auto simp add: predecir_probabilidad_lluvia_def Let_def m seleccionar_completo
        split: sum.splits)
qed

theorem predecir_completo_witness:
  "fst (predecir_probabilidad_lluvia modelo_ejemplo escalador_ejemplo [''prcp'', ''tavg'']
          vector_ejemplo) = (Some 1, Some 75)
   \<and> fst (predecir_probabilidad_lluvia modelo_ejemplo
             \<lparr>transform = (\<lambda>X. Inl (Exception ''ValueError''))\<rparr> [''prcp'', ''tavg'']
             vector_ejemplo) = (None, None)
   \<and> fst (predecir_probabilidad_lluvia
             \<lparr>predict_proba = (\<lambda>X. Inr (3 / 4)), predict = (\<lambda>X. Inl (Exception ''ValueError''))\<rparr>
             escalador_ejemplo [''prcp'', ''tavg''] vector_ejemplo) = (None, None)"
  using predecir_completo [where caracteristicas = "[''prcp'', ''tavg'']"
      and df_datos = vector_ejemplo and escalador = escalador_ejemplo and modelo = modelo_ejemplo
      and X_scaled = "[Num 2, Num 12]" and p = "3 / 4" and l = 1]
    predecir_completo [where caracteristicas = "[''prcp'', ''tavg'']"
      and df_datos = vector_ejemplo and modelo = modelo_ejemplo
      and escalador = "\<lparr>transform = (\<lambda>X. Inl (Exception ''ValueError''))\<rparr>"
      and e = "Exception ''ValueError''"]
    predecir_completo [where caracteristicas = "[''prcp'', ''tavg'']"
      and df_datos = vector_ejemplo and escalador = escalador_ejemplo
      and modelo = "\<lparr>predict_proba = (\<lambda>X. Inr (3 / 4)), predict = (\<lambda>X. Inl (Exception ''ValueError''))\<rparr>"
      and X_scaled = "[Num 2, Num 12]" and e = "Exception ''ValueError''"]
  by (simp add: vector_ejemplo_def modelo_ejemplo_def escalador_ejemplo_def Let_def)

section \<open>Properties of the range aggregation\<close>

text \<open>
  The loop, when no date raises: it appends, date by date in the order of the list, the
  entry of each date whose synthesis gives a vector, and nothing for the others.
\<close>

lemma pronostico_bucle_concat:
  assumes "\<forall>f \<in> set fechas. \<exists>r. preparar_datos_fecha df f = Inr r"
  shows "pronostico_bucle df M E C fechas acc =
           Inr (acc @ concat (map (\<lambda>f. case preparar_datos_fecha df f of
                                          Inr (Some v) \<Rightarrow> [resultado_fecha M E C f v]
                                        | _ \<Rightarrow> []) fechas))"
  using assms
proof (induction fechas arbitrary: acc)
  case Nil
  then show ?case by simp
next
  case (Cons f fechas)
  then obtain r where r: "preparar_datos_fecha df f = Inr r" by auto
  show ?case
  proof (cases r)
    case None
    with r Cons show ?thesis by simp
  next
    case (Some v)
    with r Cons show ?thesis by simp
  qed
qed

lemma pronostico_bucle_Inr:
  assumes "pronostico_bucle df M E C fechas acc = Inr rs"
  shows "\<forall>f \<in> set fechas. \<exists>r. preparar_datos_fecha df f = Inr r"
  using assms
proof (induction fechas arbitrary: acc)
  case Nil
  then show ?case by simp
next
  case (Cons f fechas)
  then show ?case
    by (auto split: sum.splits option.splits)
qed




lemma generar_pronostico_rango_concat:
  assumes "''tavg'' \<in> set (columns df)" and "''prcp'' \<in> set (columns df)"
  shows "generar_pronostico_rango df M E C ini fin =
           Inr (concat (map (\<lambda>f. case preparar_datos_fecha df f of
                                      Inr (Some v) \<Rightarrow> [resultado_fecha M E C f v]
                                    | _ \<Rightarrow> []) [ini..fin]))"
proof -
  have "\<forall>f \<in> set [ini..fin]. \<exists>r. preparar_datos_fecha df f = Inr r"
    using preparar_columnas [OF assms] by simp
  from pronostico_bucle_concat [OF this, of M E C "[]"] show ?thesis
    by (simp add: generar_pronostico_rango_def date_range_def)
qed

lemma generar_pronostico_rango_Inr:
  assumes "generar_pronostico_rango df M E C ini fin = Inr rs"
  shows "rs = concat (map (\<lambda>f. case preparar_datos_fecha df f of
                                  Inr (Some v) \<Rightarrow> [resultado_fecha M E C f v]
                                | _ \<Rightarrow> []) [ini..fin])"
proof -
  have "\<forall>f \<in> set [ini..fin]. \<exists>r. preparar_datos_fecha df f = Inr r"
    using pronostico_bucle_Inr assms
    unfolding generar_pronostico_rango_def date_range_def by blast
  from pronostico_bucle_concat [OF this, of M E C "[]"] assms show ?thesis
    by (simp add: generar_pronostico_rango_def date_range_def)
qed

lemma civil_of_days_ejemplos_2:
  "civil_of_days 19782 = (2024, 2, 29)" "civil_of_days 19783 = (2024, 3, 1)"
  "civil_of_days 19784 = (2024, 3, 2)"
  by code_simp+

lemma strftime_ejemplos: "strftime 19782 = ''2024-02-29''" "strftime 19723 = ''2024-01-01''"
  by code_simp+

lemma upto_ejemplo: "[19782..19784] = [19782, 19783, 19784]"
  by code_simp

lemma preparar_ejemplo:
  "\<exists>v. preparar_datos_fecha df_ejemplo 19782 = Inr (Some v)
        \<and> v ''tavg'' \<noteq> None \<and> v ''prcp'' \<noteq> None \<and> v ''humidity'' = None"
  by (simp add: preparar_datos_fecha_def datos_similares_def datos_primarios_def
      datos_del_mes_def df_ejemplo_def fila_ejemplo_def ts_month_def ts_day_def
      civil_of_days_ejemplos civil_of_days_ejemplos_2 Let_def promedios_def isnull_sum_def)

lemma preparar_ejemplo_sin_datos:
  "preparar_datos_fecha df_ejemplo 19783 = Inr None"
  "preparar_datos_fecha df_ejemplo 19784 = Inr None"
  by (simp_all add: preparar_datos_fecha_def datos_similares_def datos_primarios_def
      datos_del_mes_def df_ejemplo_def fila_ejemplo_def ts_month_def ts_day_def
      civil_of_days_ejemplos civil_of_days_ejemplos_2 Let_def)




text \<open>
  C10.  In a range aggregation that returns, a date of the interval whose synthesis
  succeeds and whose prediction fails (the invoker returns \<^verbatim>\<open>(None, None)\<close>) has its
  entry in the output, with the label \<open>No lluvia\<close>, an absent probability and the
  undetermined interpretation.
\<close>

theorem generar_pronostico_rango_prediccion_fallida:
  assumes "generar_pronostico_rango df M E C ini fin = Inr rs"
    and "ini \<le> f" and "f \<le> fin"
    and "preparar_datos_fecha df f = Inr (Some v)"
    and "fst (predecir_probabilidad_lluvia M E C v) = (None, None)"
  shows "\<lparr>fecha = strftime f, prediccion = ''No lluvia'', probabilidad = None,
           interpretacion = ''No se pudo determinar''\<rparr> \<in> set rs"
proof -
  have rs: "rs = concat (map (\<lambda>f. case preparar_datos_fecha df f of
                                        Inr (Some v) \<Rightarrow> [resultado_fecha M E C f v]
                                      | _ \<Rightarrow> []) [ini..fin])"
    using assms(1) by (rule generar_pronostico_rango_Inr)
  have f: "f \<in> set [ini..fin]"
    using assms(2,3) by simp
  have "resultado_fecha M E C f v \<in> set rs"
    unfolding rs using f assms(4) by (auto intro!: bexI [of _ f])
  moreover have "resultado_fecha M E C f v =
      \<lparr>fecha = strftime f, prediccion = ''No lluvia'', probabilidad = None,
       interpretacion = ''No se pudo determinar''\<rparr>"
    using assms(5) by (simp add: resultado_fecha_def interpretar_probabilidad_def)
  ultimately show ?thesis by simp
qed

theorem generar_pronostico_rango_prediccion_fallida_witness:
  "generar_pronostico_rango df_ejemplo modelo_ejemplo escalador_ejemplo [''tavg'', ''humidity'']
     19782 19784
   = Inr [\<lparr>fecha = ''2024-02-29'', prediccion = ''No lluvia'', probabilidad = None,
           interpretacion = ''No se pudo determinar''\<rparr>]"
proof -
  have c: "''tavg'' \<in> set (columns df_ejemplo)" "''prcp'' \<in> set (columns df_ejemplo)"
    by (simp_all add: df_ejemplo_def)
  obtain v where v: "preparar_datos_fecha df_ejemplo 19782 = Inr (Some v)"
    "v ''humidity'' = None"
    using preparar_ejemplo by blast
  have p: "fst (predecir_probabilidad_lluvia modelo_ejemplo escalador_ejemplo
                  [''tavg'', ''humidity''] v) = (None, None)"
    using v(2) by (simp add: predecir_probabilidad_lluvia_def Let_def)
  obtain rs where rs: "generar_pronostico_rango df_ejemplo modelo_ejemplo escalador_ejemplo
       [''tavg'', ''humidity''] 19782 19784 = Inr rs" "length rs = 1"
    using generar_pronostico_rango_concat [OF c, of modelo_ejemplo escalador_ejemplo
        "[''tavg'', ''humidity'']" 19782 19784]
    by (simp add: upto_ejemplo v preparar_ejemplo_sin_datos)
  have "\<lparr>fecha = strftime 19782, prediccion = ''No lluvia'', probabilidad = None,
           interpretacion = ''No se pudo determinar''\<rparr> \<in> set rs"
    using generar_pronostico_rango_prediccion_fallida [OF rs(1) _ _ v(1) p] by simp
  then show ?thesis
    using rs by (cases rs) (simp_all add: strftime_ejemplos)
qed

section \<open>Properties of the cleaner\<close>

text \<open>
  The three fills keep the length of a column and every cell that is not null, so the
  loop of lines 33 to 35 keeps the columns, the number of rows, their dates and their
  cells that are not null.
\<close>

lemma isnull_sum_columna_0:
  "isnull_sum (columna df col) = 0 \<longleftrightarrow> (\<forall>r \<in> set (filas df). vals r col \<noteq> NaN)"
  by (auto simp add: isnull_sum_def columna_def filter_empty_conv)

lemma length_interpolate_desde: "length (interpolate_desde a k xs) = length xs"
  by (induction a k xs rule: interpolate_desde.induct) auto

lemma length_interpolate: "length (interpolate xs) = length xs"
  by (induction xs rule: interpolate.induct) (auto simp add: length_interpolate_desde)

lemma length_bfill: "length (bfill xs) = length xs"
  by (induction xs rule: bfill.induct) (auto split: list.splits)

lemma length_ffill_desde: "length (ffill_desde p xs) = length xs"
  by (induction p xs rule: ffill_desde.induct) auto

lemma conserva_interpolate_desde:
  "list_all2 (\<lambda>x y. x \<noteq> NaN \<longrightarrow> y = x) xs (interpolate_desde a k xs)"
  by (induction a k xs rule: interpolate_desde.induct) auto

lemma conserva_interpolate: "list_all2 (\<lambda>x y. x \<noteq> NaN \<longrightarrow> y = x) xs (interpolate xs)"
  by (induction xs rule: interpolate.induct) (auto simp add: conserva_interpolate_desde)

lemma conserva_bfill: "list_all2 (\<lambda>x y. x \<noteq> NaN \<longrightarrow> y = x) xs (bfill xs)"
  by (induction xs rule: bfill.induct) (auto split: list.splits)

lemma conserva_ffill_desde: "list_all2 (\<lambda>x y. x \<noteq> NaN \<longrightarrow> y = x) xs (ffill_desde p xs)"
  by (induction p xs rule: ffill_desde.induct) auto

lemma conserva_relleno:
  "list_all2 (\<lambda>x y. x \<noteq> NaN \<longrightarrow> y = x) xs (ffill (bfill (interpolate xs)))"
proof -
  have "list_all2 (\<lambda>x y. x \<noteq> NaN \<longrightarrow> y = x) xs (bfill (interpolate xs))"
    using list_all2_trans [OF _ conserva_interpolate conserva_bfill, of _ xs]
    by (metis (mono_tags, lifting))
  then show ?thesis
    unfolding ffill_def
    using list_all2_trans [OF _ _ conserva_ffill_desde, of _ _ xs]
    by (metis (mono_tags, lifting))
qed


lemma conserva_fila_refl: "list_all2 conserva_fila rs rs"
  by (simp add: list_all2_refl conserva_fila_def)

lemma conserva_fila_trans:
  "list_all2 conserva_fila rs rs' \<Longrightarrow> list_all2 conserva_fila rs' rs'' \<Longrightarrow>
   list_all2 conserva_fila rs rs''"
proof (rule list_all2_trans)
  fix a b c
  assume "conserva_fila a b" and "conserva_fila b c"
  then show "conserva_fila a c"
    by (auto simp add: conserva_fila_def)
qed

lemma limpiar_columna_conserva:
  "columns (limpiar_columna df col) = columns df
   \<and> list_all2 conserva_fila (filas df) (filas (limpiar_columna df col))"
proof (cases "col \<in> set (columns df) \<and> isnull_sum (columna df col) > 0")
  case False
  then show ?thesis
    by (auto simp add: limpiar_columna_def conserva_fila_refl)
next
  case True
  define ys where "ys = ffill (bfill (interpolate (columna df col)))"
  have l: "length ys = length (filas df)"
    by (simp add: ys_def ffill_def length_ffill_desde length_bfill length_interpolate columna_def)
  have c: "list_all2 (\<lambda>x y. x \<noteq> NaN \<longrightarrow> y = x) (columna df col) ys"
    unfolding ys_def by (rule conserva_relleno)
  have "list_all2 conserva_fila (filas df)
          (map2 (\<lambda>r x. r\<lparr>vals := (vals r)(col := x)\<rparr>) (filas df) ys)"
    using l c
    by (auto simp add: list_all2_conv_all_nth conserva_fila_def columna_def)
  then show ?thesis
    using True by (simp add: limpiar_columna_def asignar_columna_def ys_def)
qed

lemma foldl_limpiar_columna_conserva:
  "columns (foldl limpiar_columna df cols) = columns df
   \<and> list_all2 conserva_fila (filas df) (filas (foldl limpiar_columna df cols))"
proof (induction cols arbitrary: df)
  case Nil
  then show ?case by (simp add: conserva_fila_refl)
next
  case (Cons col cols)
  show ?case
    using Cons.IH [of "limpiar_columna df col"] limpiar_columna_conserva [of df col]
    by (auto intro: conserva_fila_trans)
qed

lemma reparar_conserva:
  "columns (reparar df) = columns df
   \<and> list_all2 conserva_fila (filas df) (filas (reparar df))"
  unfolding reparar_def by (rule foldl_limpiar_columna_conserva)

lemma sin_nulos_completa:
  assumes "isnull_sum (columna df ''tavg'') + isnull_sum (columna df ''prcp'')
           + isnull_sum (columna df ''pres'') = 0"
  shows "filter fila_completa (filas df) = filas df"
  using assms
  by (simp add: isnull_sum_columna_0 fila_completa_def filter_id_conv)

text \<open>
  C9.  When the cleaner returns a table \<open>df\<close>, it does so for a table \<open>df0\<close> that was
  read, with the same columns, and every row of \<open>df\<close> has a cell that is not null in each
  of \<^verbatim>\<open>tavg\<close>, \<^verbatim>\<open>prcp\<close> and \<^verbatim>\<open>pres\<close> that is a column of the table (all three are,
  whenever the table read had a null).  The repair removes no row: its rows are those of
  \<open>df0\<close>, one for one, with nulls filled.  The rows of \<open>df\<close> are the rows of the repaired
  table that are complete in the three columns, so the drop of line 42 is the only
  removal; with no null in the table read, \<open>df\<close> is \<open>df0\<close>.
\<close>

theorem cargar_datos_historicos_limpio:
  assumes "cargar_datos_historicos leido = Some df"
  shows "\<exists>df0. leido = Inr df0
     \<and> columns df = columns df0
     \<and> (\<forall>r \<in> set (filas df). \<forall>col \<in> {''tavg'', ''prcp'', ''pres''}.
           col \<in> set (columns df) \<longrightarrow> vals r col \<noteq> NaN)
     \<and> list_all2 conserva_fila (filas df0) (filas (reparar df0))
     \<and> (if nulos_total df0 > 0
         then {''tavg'', ''prcp'', ''pres''} \<subseteq> set (columns df)
              \<and> filas df = filter fila_completa (filas (reparar df0))
         else df = df0)"
proof -
  obtain df0 where df0: "leido = Inr df0"
    using assms by (cases leido) (simp_all add: cargar_datos_historicos_def)
  show ?thesis
  proof (cases "nulos_total df0 > 0")
    case False
    then have e: "df = df0"
      using assms df0 by (simp add: cargar_datos_historicos_def)
    have "\<forall>col \<in> set (columns df0). isnull_sum (columna df0 col) = 0"
      using False by (simp add: nulos_total_def)
    then have "\<forall>r \<in> set (filas df0). \<forall>col \<in> set (columns df0). vals r col \<noteq> NaN"
      by (simp add: isnull_sum_columna_0)
    then show ?thesis
      using False e df0 reparar_conserva [of df0] by auto
  next
    case True
    have k: "{''tavg'', ''prcp'', ''pres''} \<subseteq> set (columns (reparar df0))"
      using assms df0 True
      by (auto simp add: cargar_datos_historicos_def Let_def split: if_splits)
    have fc: "(\<lambda>r. vals r ''tavg'' \<noteq> NaN \<and> vals r ''prcp'' \<noteq> NaN \<and> vals r ''pres'' \<noteq> NaN)
                = fila_completa"
      by (auto simp add: fila_completa_def)
    have f: "filas df = filter fila_completa (filas (reparar df0))"
      and c: "columns df = columns (reparar df0)"
      using assms df0 True k sin_nulos_completa [of "reparar df0"]
      by (auto simp add: cargar_datos_historicos_def Let_def dropna_def fc split: if_splits)
    have "\<forall>r \<in> set (filas df). fila_completa r"
      unfolding f by simp
    then show ?thesis
      using True df0 k f c reparar_conserva [of df0]
      by (auto simp add: fila_completa_def)
  qed
qed

lemma cargar_df_nulos:
  "\<exists>df. cargar_datos_historicos (Inr df_nulos) = Some df
        \<and> map (\<lambda>r. vals r ''tavg'') (filas df) = [Num 10, Num 12, Num 14]
        \<and> map (\<lambda>r. vals r ''prcp'') (filas df) = [Num 1, Num 1, Num 3]
        \<and> map (\<lambda>r. vals r ''pres'') (filas df) = [Num 1000, Num 1005, Num 1010]"
  by (simp add: cargar_datos_historicos_def df_nulos_def nulos_total_def reparar_def
      limpiar_columna_def columna_def isnull_sum_def asignar_columna_def ffill_def dropna_def
      Let_def)

theorem cargar_datos_historicos_limpio_witness:
  "\<exists>df. cargar_datos_historicos (Inr df_nulos) = Some df
        \<and> map (\<lambda>r. vals r ''tavg'') (filas df) = [Num 10, Num 12, Num 14]
        \<and> (\<forall>r \<in> set (filas df).
              vals r ''tavg'' \<noteq> NaN \<and> vals r ''prcp'' \<noteq> NaN \<and> vals r ''pres'' \<noteq> NaN)"
proof -
  obtain df where df: "cargar_datos_historicos (Inr df_nulos) = Some df"
    "map (\<lambda>r. vals r ''tavg'') (filas df) = [Num 10, Num 12, Num 14]"
    using cargar_df_nulos by auto
  have "columns df = [''tavg'', ''prcp'', ''pres'']"
    using cargar_datos_historicos_limpio [OF df(1)] by (auto simp add: df_nulos_def)
  then have "\<forall>r \<in> set (filas df).
              vals r ''tavg'' \<noteq> NaN \<and> vals r ''prcp'' \<noteq> NaN \<and> vals r ''pres'' \<noteq> NaN"
    using cargar_datos_historicos_limpio [OF df(1)] by simp
  then show ?thesis
    using df by auto
qed

section \<open>Properties of the monthly aggregation\<close>

text \<open>
  When every entry has a probability and there is at least one entry, the summary is
  computed over the entries: the count of the label \<open>Lluvia\<close>, that count over the
  number of entries, and the mean, the maximum and the minimum of their probabilities.
\<close>

lemma imprimir_tabla_completa:
  "\<forall>r \<in> set rs. probabilidad r \<noteq> None \<Longrightarrow> imprimir_tabla rs = None"
  by (induction rs) auto

lemma py_sum_completa:
  "\<forall>x \<in> set xs. x \<noteq> None \<Longrightarrow> py_sum xs = Inr (sum_list (map the xs))"
  by (induction xs rule: py_sum.induct) auto

lemma py_extremo_max:
  "xs \<noteq> [] \<Longrightarrow> \<forall>x \<in> set xs. x \<noteq> None \<Longrightarrow>
   py_extremo max xs = Inr (Max (set (map the xs)))"
  by (induction "max :: real \<Rightarrow> real \<Rightarrow> real" xs rule: py_extremo.induct)
    (auto simp add: max.commute)

lemma py_extremo_min:
  "xs \<noteq> [] \<Longrightarrow> \<forall>x \<in> set xs. x \<noteq> None \<Longrightarrow>
   py_extremo min xs = Inr (Min (set (map the xs)))"
  by (induction "min :: real \<Rightarrow> real \<Rightarrow> real" xs rule: py_extremo.induct)
    (auto simp add: min.commute)

lemma resumen_mensual_completo:
  assumes "rs \<noteq> []" and "\<forall>r \<in> set rs. probabilidad r \<noteq> None"
  shows "resumen_mensual rs =
     Inr \<lparr>dias_lluvia = length (filter (\<lambda>r. prediccion r = ''Lluvia'') rs),
          dias_total = length rs,
          porcentaje_lluvia =
            real (length (filter (\<lambda>r. prediccion r = ''Lluvia'') rs)) / real (length rs) * 100,
          probabilidad_media = sum_list (map (\<lambda>r. the (probabilidad r)) rs) / real (length rs),
          probabilidad_maxima = Max (set (map (\<lambda>r. the (probabilidad r)) rs)),
          probabilidad_minima = Min (set (map (\<lambda>r. the (probabilidad r)) rs))\<rparr>"
proof -
  have p: "\<forall>x \<in> set (map probabilidad rs). x \<noteq> None"
    using assms(2) by simp
  have n: "map probabilidad rs \<noteq> []"
    using assms(1) by simp
  show ?thesis
    using assms
    by (simp add: resumen_mensual_def imprimir_tabla_completa py_sum_completa [OF p]
        py_extremo_max [OF n p] py_extremo_min [OF n p] Let_def comp_def)
qed

text \<open>February 2024 on the example table, with a feature that no vector has.\<close>

lemma calendario_febrero_2024:
  "Timestamp 2024 2 1 = 19754" "Timestamp 2024 3 1 = 19783" "Timestamp 2024 2 29 = 19782"
  "civil_of_days 19754 = (2024, 2, 1)"
  by code_simp+

lemma preparar_ejemplo_febrero:
  "\<exists>v. preparar_datos_fecha df_ejemplo 19754 = Inr (Some v) \<and> v ''humidity'' = None"
  by (simp add: preparar_datos_fecha_def datos_similares_def datos_primarios_def
      datos_del_mes_def df_ejemplo_def fila_ejemplo_def ts_month_def ts_day_def
      civil_of_days_ejemplos calendario_febrero_2024 Let_def promedios_def isnull_sum_def)

text \<open>
  C5 fails on the code where an entry has no probability.  For February 2024 on the
  example table, with the required feature \<^verbatim>\<open>humidity\<close> that the synthesized vector
  lacks, the range aggregation returns entries (the first one without a probability, as
  C10 describes), and the monthly interface then raises \<^verbatim>\<open>TypeError\<close> while it prints
  the table, before any number of the summary is computed.
\<close>

theorem interfaz_mes_prediccion_fallida:
  "\<exists>r rs. analisis_mensual df_ejemplo modelo_ejemplo escalador_ejemplo
             [''tavg'', ''humidity''] 2024 2 = Inr (r # rs)
        \<and> probabilidad r = None
        \<and> interfaz_mes df_ejemplo modelo_ejemplo escalador_ejemplo
             [''tavg'', ''humidity''] 2024 2 = Inl TypeError"
proof -
  have c: "''tavg'' \<in> set (columns df_ejemplo)" "''prcp'' \<in> set (columns df_ejemplo)"
    by (simp_all add: df_ejemplo_def)
  obtain v where v: "preparar_datos_fecha df_ejemplo 19754 = Inr (Some v)"
    "v ''humidity'' = None"
    using preparar_ejemplo_febrero by auto
  have p: "probabilidad (resultado_fecha modelo_ejemplo escalador_ejemplo
                           [''tavg'', ''humidity''] 19754 v) = None"
    using v(2) by (simp add: resultado_fecha_def predecir_probabilidad_lluvia_def Let_def)
  have u: "[19754..19782] = 19754 # [19755..19782]"
    using upto_rec1 [of 19754 19782] by simp
  have a: "analisis_mensual df_ejemplo modelo_ejemplo escalador_ejemplo
             [''tavg'', ''humidity''] 2024 2
           = generar_pronostico_rango df_ejemplo modelo_ejemplo escalador_ejemplo
               [''tavg'', ''humidity''] 19754 19782"
    by (simp add: analisis_mensual_def Let_def calendario_febrero_2024 ts_day_def
        civil_of_days_ejemplos_2)
  obtain rs where rs: "generar_pronostico_rango df_ejemplo modelo_ejemplo escalador_ejemplo
               [''tavg'', ''humidity''] 19754 19782
      = Inr (resultado_fecha modelo_ejemplo escalador_ejemplo
                           [''tavg'', ''humidity''] 19754 v # rs)"
    using generar_pronostico_rango_concat [OF c, of modelo_ejemplo escalador_ejemplo
        "[''tavg'', ''humidity'']" 19754 19782]
    by (simp add: u v(1))
  show ?thesis
    using a rs p by (simp add: interfaz_mes_def resumen_mensual_def)
qed

end
